theory Spec2Isabelle
  imports Complex_Main
begin

section \<open>Heart health risk checker: the feature derivation of app.py\<close>

text \<open>
  The script app.py collects plain-language answers in a form, converts them to the
  13 clinical features of the classifier, and asks the loaded classifier for the
  probability of the positive class.

  Numbers. Python's integers are \<open>int\<close>. The script's floats are modelled as exact
  rationals. The float constants 0.2 and 0.8 are both rounded upwards in binary64, so
  for every age of the slider (18 to 100) the products \<open>(age - 18) * 0.2\<close> and
  \<open>(age - 18) * 0.8\<close> are never below their exact values and the truncation \<open>int(...)\<close>
  of the script yields the same integer as the truncation of the exact rational. The
  comparison with 0.5 is exact on floats, since 0.5 is a binary64 number.
\<close>

subsection \<open>The answers of the form\<close>

text \<open>
  Every radio button and select box returns one of its listed options, so each question
  is a datatype whose constructors are the options in the order the script lists them.
\<close>

datatype gender = Male | Female

datatype smoking = Never | Occasionally | Daily

datatype exercise = Rarely | Days_1_2_per_week | Days_3_5_per_week | Everyday

datatype diet = Diet_Poor | Diet_Average | Healthy

datatype stress = Low | Moderate | High

datatype family_history = FH_No | FH_Yes

datatype weight = Underweight | Weight_Normal | Overweight | Obese

datatype sleep = Sleep_Poor | Sleep_Average | Good

record answers =
  age :: int
  gender :: gender
  smoking :: smoking
  exercise :: exercise
  diet :: diet
  stress :: stress
  family_history :: family_history
  weight :: weight
  sleep :: sleep

text \<open>The optional section of the form: medical test values entered directly.\<close>

datatype yes_no_opt = Unknown | No | Yes

datatype restecg_opt = ECG_Unknown | ECG_Normal | ST_T_wave_abnormality
  | Left_ventricular_hypertrophy

datatype slope_opt = Slope_Unknown | Upsloping | Flat | Downsloping

datatype thal_opt = Thal_Unknown | Thal_Normal | Fixed_defect | Reversible_defect

record optional_inputs =
  trestbps_opt :: int
  chol_opt :: int
  fbs_opt :: yes_no_opt
  restecg_opt :: restecg_opt
  thalach_opt :: int
  exang_opt :: yes_no_opt
  oldpeak_opt :: rat
  slope_opt :: slope_opt
  ca_opt :: int
  thal_opt :: thal_opt

text \<open>The values every widget of the optional section starts with.\<close>

definition no_overrides :: optional_inputs where
  "no_overrides =
     \<lparr>trestbps_opt = 0, chol_opt = 0, fbs_opt = Unknown, restecg_opt = ECG_Unknown,
      thalach_opt = 0, exang_opt = Unknown, oldpeak_opt = 0, slope_opt = Slope_Unknown,
      ca_opt = 0, thal_opt = Thal_Unknown\<rparr>"

text \<open>The bounds the widgets enforce (slider 18..100, \<open>min_value\<close> and \<open>max_value\<close>).\<close>

definition valid_answers :: "answers \<Rightarrow> bool" where
  "valid_answers a = (18 \<le> age a \<and> age a \<le> 100)"

definition valid_optional :: "optional_inputs \<Rightarrow> bool" where
  "valid_optional opt =
     (0 \<le> trestbps_opt opt \<and> trestbps_opt opt \<le> 300 \<and>
      0 \<le> chol_opt opt \<and> chol_opt opt \<le> 800 \<and>
      0 \<le> thalach_opt opt \<and> thalach_opt opt \<le> 230 \<and>
      0 \<le> oldpeak_opt opt \<and> oldpeak_opt opt \<le> 10 \<and>
      0 \<le> ca_opt opt \<and> ca_opt opt \<le> 4)"

subsection \<open>Scores: the lookup tables of lines 71 to 79\<close>

fun sex_of :: "gender \<Rightarrow> int" where
  "sex_of Male = 1"
| "sex_of Female = 0"

fun smoke_score :: "smoking \<Rightarrow> int" where
  "smoke_score Never = 0"
| "smoke_score Occasionally = 1"
| "smoke_score Daily = 2"

fun exercise_score :: "exercise \<Rightarrow> int" where
  "exercise_score Rarely = 0"
| "exercise_score Days_1_2_per_week = 1"
| "exercise_score Days_3_5_per_week = 2"
| "exercise_score Everyday = 3"

fun diet_score :: "diet \<Rightarrow> int" where
  "diet_score Diet_Poor = 0"
| "diet_score Diet_Average = 1"
| "diet_score Healthy = 2"

fun stress_score :: "stress \<Rightarrow> int" where
  "stress_score Low = 0"
| "stress_score Moderate = 1"
| "stress_score High = 2"

fun family_score :: "family_history \<Rightarrow> int" where
  "family_score FH_Yes = 1"
| "family_score FH_No = 0"

fun weight_score :: "weight \<Rightarrow> int" where
  "weight_score Underweight = 0"
| "weight_score Weight_Normal = 1"
| "weight_score Overweight = 2"
| "weight_score Obese = 3"

fun sleep_score :: "sleep \<Rightarrow> int" where
  "sleep_score Sleep_Poor = 0"
| "sleep_score Sleep_Average = 1"
| "sleep_score Good = 2"

subsection \<open>Python's number conversions\<close>

text \<open>\<open>int(x)\<close> on a float truncates towards zero.\<close>

definition py_int :: "rat \<Rightarrow> int" where
  "py_int r = (if 0 \<le> r then \<lfloor>r\<rfloor> else \<lceil>r\<rceil>)"

text \<open>
  \<open>round(x, 1)\<close>: the nearest multiple of one tenth, a tie going to the even one. The
  script rounds a binary64 value and this function an exact rational; the two can differ
  when the float is not the number it was written as. The only use here is inside
  \<open>estimate_oldpeak\<close>, whose argument is a multiple of one tenth for every score of the
  tables, so the rounding returns it unchanged, as the script's does (lemma
  \<open>estimate_oldpeak_exact\<close>).
\<close>

definition py_round1 :: "rat \<Rightarrow> rat" where
  "py_round1 r =
     (let t = r * 10; f = \<lfloor>t\<rfloor>; d = t - of_int f;
          n = (if d < 1 / 2 then f else if 1 / 2 < d then f + 1
               else if even f then f else f + 1)
      in of_int n / 10)"

subsection \<open>Default estimates (lines 82 to 98)\<close>

text \<open>
  The script's functions read the module's globals; here each takes the globals it reads
  as arguments. The list lookups are indexed by a score, which lies inside the list for
  every score the tables above produce.
\<close>

definition estimate_trestbps :: "int \<Rightarrow> int \<Rightarrow> int \<Rightarrow> int" where
  "estimate_trestbps age_v stress_sc weight_sc =
     (let base = 110 + of_int (age_v - 18) * (2 / 10)
      in py_int (base + of_int (stress_sc * 8) + of_int (weight_sc * 7)))"

definition estimate_chol :: "int \<Rightarrow> int \<Rightarrow> int \<Rightarrow> int" where
  "estimate_chol age_v smoke_sc diet_sc =
     (let base = 160 + of_int (age_v - 18) * (8 / 10);
          smoke_penalty = [0, 15, 30] ! nat smoke_sc;
          diet_adjust = [25, 10, - 10] ! nat diet_sc
      in py_int (base + of_int smoke_penalty + of_int diet_adjust))"

definition estimate_thalach :: "int \<Rightarrow> int \<Rightarrow> int \<Rightarrow> int" where
  "estimate_thalach age_v exercise_sc stress_sc =
     (let base = 200 - age_v;
          exercise_bonus = [- 10, - 5, 0, 5] ! nat exercise_sc
      in max 90 (min 200 (base + exercise_bonus - stress_sc * 5)))"

definition estimate_oldpeak :: "int \<Rightarrow> int \<Rightarrow> rat" where
  "estimate_oldpeak stress_sc weight_sc =
     py_round1 (2 / 10 + of_int stress_sc * (6 / 10)
                + of_int (max 0 (weight_sc - 1)) * (3 / 10))"

subsection \<open>Rule-based derivations (lines 100 to 131)\<close>

definition derive_cp :: "int \<Rightarrow> int \<Rightarrow> int \<Rightarrow> int" where
  "derive_cp stress_sc exercise_sc smoke_sc =
     (if stress_sc = 2 \<and> exercise_sc = 0 then 2
      else if stress_sc = 2 \<and> smoke_sc = 2 then 1
      else 0)"

definition derive_fbs :: "int \<Rightarrow> int \<Rightarrow> int \<Rightarrow> int" where
  "derive_fbs age_v diet_sc weight_sc =
     (if diet_sc = 0 \<and> weight_sc = 3 then 1
      else if 60 \<le> age_v \<and> diet_sc = 0 then 1
      else 0)"

definition derive_restecg :: int where
  "derive_restecg = 0"

definition derive_exang :: "int \<Rightarrow> int \<Rightarrow> int" where
  "derive_exang exercise_sc stress_sc =
     (if exercise_sc = 0 \<and> 1 \<le> stress_sc then 1 else 0)"

definition derive_slope :: "int \<Rightarrow> int \<Rightarrow> int" where
  "derive_slope exercise_sc stress_sc =
     (if 2 \<le> exercise_sc \<and> stress_sc = 0 then 0
      else if stress_sc = 2 then 2
      else 1)"

definition derive_ca :: "int \<Rightarrow> int \<Rightarrow> int" where
  "derive_ca age_v smoke_sc = (if 60 \<le> age_v \<and> smoke_sc = 2 then 1 else 0)"

definition derive_thal :: "int \<Rightarrow> int" where
  "derive_thal family_sc = (if family_sc = 1 then 2 else 1)"

subsection \<open>The feature vector (lines 133 to 144 and 159 to 173)\<close>

record feature_vector =
  x_age :: int
  x_sex :: int
  x_cp :: int
  x_trestbps :: int
  x_chol :: int
  x_fbs :: int
  x_restecg :: int
  x_thalach :: int
  x_exang :: int
  x_oldpeak :: rat
  x_slope :: int
  x_ca :: int
  x_thal :: int

text \<open>
  The tests \<open>'name' in locals()\<close> of lines 134 to 143 are always true: every optional
  widget is created at module level on every run of the script, whether the expander is
  open or not, so each \<open>_opt\<close> variable is bound. What remains of each line is its second
  test, where it has one. The line for \<open>ca\<close> has none.
\<close>

definition derive_features :: "answers \<Rightarrow> optional_inputs \<Rightarrow> feature_vector" where
  "derive_features a opt =
     (let sex = sex_of (gender a);
          smoke_sc = smoke_score (smoking a);
          exercise_sc = exercise_score (exercise a);
          diet_sc = diet_score (diet a);
          stress_sc = stress_score (stress a);
          family_sc = family_score (family_history a);
          weight_sc = weight_score (weight a);
          sleep_sc = sleep_score (sleep a);
          trestbps = (if 0 < trestbps_opt opt then trestbps_opt opt
                      else estimate_trestbps (age a) stress_sc weight_sc);
          chol = (if 0 < chol_opt opt then chol_opt opt
                  else estimate_chol (age a) smoke_sc diet_sc);
          fbs = (case fbs_opt opt of
                   Unknown \<Rightarrow> derive_fbs (age a) diet_sc weight_sc
                 | No \<Rightarrow> 0 | Yes \<Rightarrow> 1);
          restecg = (case restecg_opt opt of
                       ECG_Unknown \<Rightarrow> derive_restecg
                     | ECG_Normal \<Rightarrow> 0
                     | ST_T_wave_abnormality \<Rightarrow> 1
                     | Left_ventricular_hypertrophy \<Rightarrow> 2);
          thalach = (if 0 < thalach_opt opt then thalach_opt opt
                     else estimate_thalach (age a) exercise_sc stress_sc);
          exang = (case exang_opt opt of
                     Unknown \<Rightarrow> derive_exang exercise_sc stress_sc
                   | No \<Rightarrow> 0 | Yes \<Rightarrow> 1);
          oldpeak = (if 0 < oldpeak_opt opt then oldpeak_opt opt
                     else estimate_oldpeak stress_sc weight_sc);
          slope = (case slope_opt opt of
                     Slope_Unknown \<Rightarrow> derive_slope exercise_sc stress_sc
                   | Upsloping \<Rightarrow> 0 | Flat \<Rightarrow> 1 | Downsloping \<Rightarrow> 2);
          ca = ca_opt opt;
          thal = (case thal_opt opt of
                    Thal_Unknown \<Rightarrow> derive_thal family_sc
                  | Thal_Normal \<Rightarrow> 1 | Fixed_defect \<Rightarrow> 2 | Reversible_defect \<Rightarrow> 3);
          cp = derive_cp stress_sc exercise_sc smoke_sc
      in \<lparr>x_age = age a, x_sex = sex, x_cp = cp, x_trestbps = trestbps, x_chol = chol,
          x_fbs = fbs, x_restecg = restecg, x_thalach = thalach, x_exang = exang,
          x_oldpeak = oldpeak, x_slope = slope, x_ca = ca, x_thal = thal\<rparr>)"

subsection \<open>Prediction and the run of the script\<close>

text \<open>
  The classifier is opaque: what the script uses of it is the probability of the
  positive class for one row, \<open>model.predict_proba(X)[0][1]\<close>.
\<close>

type_synonym model = "feature_vector \<Rightarrow> rat"

datatype risk_label = High_Risk | Low_Risk

definition pred_label :: "rat \<Rightarrow> risk_label" where
  "pred_label pred_prob = (if 1 / 2 < pred_prob then High_Risk else Low_Risk)"

text \<open>
  The prediction of lines 175 and 176: the probability and its label. The percentage of
  line 177 is a rounding of a binary64 product that is only displayed; it is not part
  of the model.
\<close>

record prediction =
  p_prob :: rat
  p_label :: risk_label

definition predict :: "model \<Rightarrow> feature_vector \<Rightarrow> prediction" where
  "predict m X =
     (let pred_prob = m X
      in \<lparr>p_prob = pred_prob, p_label = pred_label pred_prob\<rparr>)"

text \<open>
  The file model.pkl as the script finds it: absent; present with bytes that do not
  unpickle; the pickled classifier; or the pickle of some other object, which loads but
  cannot answer \<open>predict_proba\<close> for a row of 13 features. Lines 8 and 9 open and
  unpickle the file outside any \<open>try\<close>, so the exception of either call ends the run.
\<close>

datatype model_file = Missing | Malformed | Pickled model | Pickled_other

text \<open>What \<open>pickle.load\<close> returned.\<close>

datatype loaded = Classifier model | Other_object

text \<open>
  The exceptions that end a run. \<open>UnpickleFailure\<close> stands for whichever exception
  \<open>pickle.load\<close> raises on the bytes (\<open>UnpicklingError\<close>, \<open>EOFError\<close> on an empty or
  truncated file, and others); \<open>PredictFailure\<close> for the exception of line 175 on an
  object that is no fitting classifier (\<open>AttributeError\<close>, \<open>ValueError\<close>).
\<close>

datatype error = FileNotFoundError | UnpickleFailure | PredictFailure

definition load_model :: "model_file \<Rightarrow> error + loaded" where
  "load_model f =
     (case f of Missing \<Rightarrow> Inl FileNotFoundError
      | Malformed \<Rightarrow> Inl UnpickleFailure
      | Pickled m \<Rightarrow> Inr (Classifier m)
      | Pickled_other \<Rightarrow> Inr Other_object)"

text \<open>
  One run of the script: the result is the exception that ended it, or the prediction
  it displayed (none when the button was not pressed). The loaded object is first used
  on line 175, inside the branch of the pressed button.
\<close>

definition app_run ::
  "model_file \<Rightarrow> answers \<Rightarrow> optional_inputs \<Rightarrow> bool \<Rightarrow> error + prediction option" where
  "app_run f a opt submitted =
     (case load_model f of
        Inl e \<Rightarrow> Inl e
      | Inr obj \<Rightarrow>
          (let X = derive_features a opt
           in if submitted
              then (case obj of
                      Classifier m \<Rightarrow> Inr (Some (predict m X))
                    | Other_object \<Rightarrow> Inl PredictFailure)
              else Inr None))"

text \<open>The example of the specification.\<close>

definition example_answers :: answers where
  "example_answers =
     \<lparr>age = 45, gender = Male, smoking = Daily, exercise = Rarely, diet = Diet_Poor,
      stress = High, family_history = FH_Yes, weight = Obese, sleep = Sleep_Poor\<rparr>"

section \<open>Properties\<close>

subsection \<open>Helper facts\<close>

lemma smoke_score_range: "0 \<le> smoke_score s \<and> smoke_score s \<le> 2"
  by (cases s) simp_all

lemma exercise_score_range: "0 \<le> exercise_score e \<and> exercise_score e \<le> 3"
  by (cases e) simp_all

lemma diet_score_range: "0 \<le> diet_score d \<and> diet_score d \<le> 2"
  by (cases d) simp_all

lemma stress_score_range: "0 \<le> stress_score s \<and> stress_score s \<le> 2"
  by (cases s) simp_all

lemma weight_score_range: "0 \<le> weight_score w \<and> weight_score w \<le> 3"
  by (cases w) simp_all

text \<open>On the scores of the tables the ST-depression estimate needs no rounding.\<close>

lemma estimate_oldpeak_exact:
  "estimate_oldpeak (stress_score s) (weight_score w) =
     2 / 10 + of_int (stress_score s) * (6 / 10)
     + of_int (max 0 (weight_score w - 1)) * (3 / 10)"
  by (cases s; cases w) (simp_all add: estimate_oldpeak_def py_round1_def Let_def)

text \<open>
  How lines 134, 135, 138 and 140 resolve the four numeric fields that test their
  input: inside the widget bounds, the entered value is used exactly when it is not 0.
\<close>

lemma numeric_override_resolution:
  assumes "valid_optional opt"
  shows "x_trestbps (derive_features a opt) =
           (if trestbps_opt opt \<noteq> 0 then trestbps_opt opt
            else estimate_trestbps (age a) (stress_score (stress a)) (weight_score (weight a)))"
    and "x_chol (derive_features a opt) =
           (if chol_opt opt \<noteq> 0 then chol_opt opt
            else estimate_chol (age a) (smoke_score (smoking a)) (diet_score (diet a)))"
    and "x_thalach (derive_features a opt) =
           (if thalach_opt opt \<noteq> 0 then thalach_opt opt
            else estimate_thalach (age a) (exercise_score (exercise a)) (stress_score (stress a)))"
    and "x_oldpeak (derive_features a opt) =
           (if oldpeak_opt opt \<noteq> 0 then oldpeak_opt opt
            else estimate_oldpeak (stress_score (stress a)) (weight_score (weight a)))"
  using assms by (auto simp: derive_features_def valid_optional_def Let_def)

text \<open>The five categorical fields: the entered category unless it is "Unknown".\<close>

lemma categorical_override_resolution:
  shows "x_fbs (derive_features a opt) =
           (if fbs_opt opt = Unknown
            then derive_fbs (age a) (diet_score (diet a)) (weight_score (weight a))
            else if fbs_opt opt = No then 0 else 1)"
    and "x_restecg (derive_features a opt) =
           (if restecg_opt opt = ECG_Unknown then derive_restecg
            else if restecg_opt opt = ECG_Normal then 0
            else if restecg_opt opt = ST_T_wave_abnormality then 1 else 2)"
    and "x_exang (derive_features a opt) =
           (if exang_opt opt = Unknown
            then derive_exang (exercise_score (exercise a)) (stress_score (stress a))
            else if exang_opt opt = No then 0 else 1)"
    and "x_slope (derive_features a opt) =
           (if slope_opt opt = Slope_Unknown
            then derive_slope (exercise_score (exercise a)) (stress_score (stress a))
            else if slope_opt opt = Upsloping then 0
            else if slope_opt opt = Flat then 1 else 2)"
    and "x_thal (derive_features a opt) =
           (if thal_opt opt = Thal_Unknown then derive_thal (family_score (family_history a))
            else if thal_opt opt = Thal_Normal then 1
            else if thal_opt opt = Fixed_defect then 2 else 3)"
  by (simp_all add: derive_features_def Let_def
      split: yes_no_opt.split restecg_opt.split slope_opt.split thal_opt.split)

text \<open>The vessel count is the slider's value, whatever it is.\<close>

lemma vessel_count_is_slider: "x_ca (derive_features a opt) = ca_opt opt"
  by (simp add: derive_features_def Let_def)

subsection \<open>The worked example\<close>

text \<open>
  C1. For age 45, Male, smoking Daily, exercise Rarely, diet Poor, stress High, family
  history Yes, weight Obese, sleep Poor and no clinical values entered, the ranks are
  smoking 2, exercise 0, diet 0, stress 2, weight 3, sleep 0; the vector has sex 1,
  chest-pain type 2, fasting blood sugar 1 and thalassemia 2; and resting blood pressure,
  cholesterol and max heart rate are the estimates at those ranks, which are 152, 236
  and 135.
\<close>

theorem example_feature_vector:
  "smoke_score (smoking example_answers) = 2 \<and>
   exercise_score (exercise example_answers) = 0 \<and>
   diet_score (diet example_answers) = 0 \<and>
   stress_score (stress example_answers) = 2 \<and>
   weight_score (weight example_answers) = 3 \<and>
   sleep_score (sleep example_answers) = 0 \<and>
   x_sex (derive_features example_answers no_overrides) = 1 \<and>
   x_cp (derive_features example_answers no_overrides) = 2 \<and>
   x_fbs (derive_features example_answers no_overrides) = 1 \<and>
   x_thal (derive_features example_answers no_overrides) = 2 \<and>
   x_trestbps (derive_features example_answers no_overrides) = estimate_trestbps 45 2 3 \<and>
   x_chol (derive_features example_answers no_overrides) = estimate_chol 45 2 0 \<and>
   x_thalach (derive_features example_answers no_overrides) = estimate_thalach 45 0 2 \<and>
   estimate_trestbps 45 2 3 = 152 \<and>
   estimate_chol 45 2 0 = 236 \<and>
   estimate_thalach 45 0 2 = 135"
proof -
  have scores: "smoke_score (smoking example_answers) = 2"
    "exercise_score (exercise example_answers) = 0"
    "diet_score (diet example_answers) = 0"
    "stress_score (stress example_answers) = 2"
    "weight_score (weight example_answers) = 3"
    "sleep_score (sleep example_answers) = 0"
    by (simp_all add: example_answers_def)
  have derived: "x_sex (derive_features example_answers no_overrides) = 1"
    "x_cp (derive_features example_answers no_overrides) = 2"
    "x_fbs (derive_features example_answers no_overrides) = 1"
    "x_thal (derive_features example_answers no_overrides) = 2"
    by (simp_all add: derive_features_def no_overrides_def example_answers_def Let_def
        derive_cp_def derive_fbs_def derive_thal_def)
  have estimated:
    "x_trestbps (derive_features example_answers no_overrides) = estimate_trestbps 45 2 3"
    "x_chol (derive_features example_answers no_overrides) = estimate_chol 45 2 0"
    "x_thalach (derive_features example_answers no_overrides) = estimate_thalach 45 0 2"
    by (simp_all add: derive_features_def no_overrides_def example_answers_def Let_def)
  have "estimate_trestbps 45 2 3 = 152"
    by (simp add: estimate_trestbps_def py_int_def floor_unique)
  moreover have "estimate_chol 45 2 0 = 236"
    by (simp add: estimate_chol_def py_int_def floor_unique)
  moreover have "estimate_thalach 45 0 2 = 135"
    by (simp add: estimate_thalach_def)
  ultimately show ?thesis
    using scores derived estimated by simp
qed

subsection \<open>Resolution of entered clinical values\<close>

text \<open>
  C2. The claim: each clinical field holds the entered value exactly when that value is
  not the default, and the derived or estimated value otherwise. It fails for the vessel
  count. For a smoker aged 60 who leaves the vessel slider at 0, the derivation
  \<open>derive_ca\<close> gives 1, but the field is 0: line 142 has no test of the slider's value,
  unlike lines 134, 135, 138 and 140, and never reaches \<open>derive_ca\<close>.
\<close>

theorem vessel_count_default_not_derived:
  "ca_opt no_overrides = 0 \<and>
   derive_ca (age (example_answers\<lparr>age := 60\<rparr>))
     (smoke_score (smoking (example_answers\<lparr>age := 60\<rparr>))) = 1 \<and>
   x_ca (derive_features (example_answers\<lparr>age := 60\<rparr>) no_overrides) = 0"
  by (simp add: derive_features_def no_overrides_def example_answers_def Let_def
      derive_ca_def)

text \<open>
  C3. With the categorical answers fixed, entering a non-default value into one clinical
  input, all others left at their defaults, gives the vector of the run without any
  entered value, changed in that one field at most: the other twelve fields are equal.
\<close>

theorem single_override_frame:
  assumes "v \<noteq> 0" and "r \<noteq> 0" and "yn \<noteq> Unknown" and "e \<noteq> ECG_Unknown"
    and "s \<noteq> Slope_Unknown" and "t \<noteq> Thal_Unknown"
  shows
    "derive_features a (no_overrides\<lparr>trestbps_opt := v\<rparr>) =
       (derive_features a no_overrides)
         \<lparr>x_trestbps := x_trestbps (derive_features a (no_overrides\<lparr>trestbps_opt := v\<rparr>))\<rparr> \<and>
     derive_features a (no_overrides\<lparr>chol_opt := v\<rparr>) =
       (derive_features a no_overrides)
         \<lparr>x_chol := x_chol (derive_features a (no_overrides\<lparr>chol_opt := v\<rparr>))\<rparr> \<and>
     derive_features a (no_overrides\<lparr>fbs_opt := yn\<rparr>) =
       (derive_features a no_overrides)
         \<lparr>x_fbs := x_fbs (derive_features a (no_overrides\<lparr>fbs_opt := yn\<rparr>))\<rparr> \<and>
     derive_features a (no_overrides\<lparr>restecg_opt := e\<rparr>) =
       (derive_features a no_overrides)
         \<lparr>x_restecg := x_restecg (derive_features a (no_overrides\<lparr>restecg_opt := e\<rparr>))\<rparr> \<and>
     derive_features a (no_overrides\<lparr>thalach_opt := v\<rparr>) =
       (derive_features a no_overrides)
         \<lparr>x_thalach := x_thalach (derive_features a (no_overrides\<lparr>thalach_opt := v\<rparr>))\<rparr> \<and>
     derive_features a (no_overrides\<lparr>exang_opt := yn\<rparr>) =
       (derive_features a no_overrides)
         \<lparr>x_exang := x_exang (derive_features a (no_overrides\<lparr>exang_opt := yn\<rparr>))\<rparr> \<and>
     derive_features a (no_overrides\<lparr>oldpeak_opt := r\<rparr>) =
       (derive_features a no_overrides)
         \<lparr>x_oldpeak := x_oldpeak (derive_features a (no_overrides\<lparr>oldpeak_opt := r\<rparr>))\<rparr> \<and>
     derive_features a (no_overrides\<lparr>slope_opt := s\<rparr>) =
       (derive_features a no_overrides)
         \<lparr>x_slope := x_slope (derive_features a (no_overrides\<lparr>slope_opt := s\<rparr>))\<rparr> \<and>
     derive_features a (no_overrides\<lparr>ca_opt := v\<rparr>) =
       (derive_features a no_overrides)
         \<lparr>x_ca := x_ca (derive_features a (no_overrides\<lparr>ca_opt := v\<rparr>))\<rparr> \<and>
     derive_features a (no_overrides\<lparr>thal_opt := t\<rparr>) =
       (derive_features a no_overrides)
         \<lparr>x_thal := x_thal (derive_features a (no_overrides\<lparr>thal_opt := t\<rparr>))\<rparr>"
  by (simp add: derive_features_def no_overrides_def Let_def)

theorem single_override_frame_witness:
  "(140::int) \<noteq> 0 \<and> (3 / 2 :: rat) \<noteq> 0 \<and> Yes \<noteq> Unknown \<and> ECG_Normal \<noteq> ECG_Unknown \<and>
   Flat \<noteq> Slope_Unknown \<and> Fixed_defect \<noteq> Thal_Unknown \<and>
   derive_features example_answers (no_overrides\<lparr>trestbps_opt := 140\<rparr>) =
     (derive_features example_answers no_overrides)\<lparr>x_trestbps := 140\<rparr> \<and>
   derive_features example_answers (no_overrides\<lparr>oldpeak_opt := 3 / 2\<rparr>) =
     (derive_features example_answers no_overrides)\<lparr>x_oldpeak := 3 / 2\<rparr> \<and>
   derive_features example_answers (no_overrides\<lparr>fbs_opt := Yes\<rparr>) =
     (derive_features example_answers no_overrides)\<lparr>x_fbs := 1\<rparr> \<and>
   derive_features example_answers (no_overrides\<lparr>ca_opt := 140\<rparr>) =
     (derive_features example_answers no_overrides)\<lparr>x_ca := 140\<rparr>"
  using single_override_frame [where v = 140 and r = "3 / 2" and yn = Yes
      and e = ECG_Normal and s = Flat and t = Fixed_defect and a = example_answers]
  by (simp add: derive_features_def no_overrides_def Let_def)

subsection \<open>Max heart rate\<close>

text \<open>
  C4. For every age from 18 to 100, every exercise rank from 0 to 3 and every stress rank
  from 0 to 2, the estimated max heart rate lies between 90 and 200, both included.
\<close>

theorem estimate_thalach_range:
  assumes "18 \<le> age_v" and "age_v \<le> 100"
    and "0 \<le> exercise_sc" and "exercise_sc \<le> 3"
    and "0 \<le> stress_sc" and "stress_sc \<le> 2"
  shows "90 \<le> estimate_thalach age_v exercise_sc stress_sc \<and>
         estimate_thalach age_v exercise_sc stress_sc \<le> 200"
  by (simp add: estimate_thalach_def Let_def)

theorem estimate_thalach_range_witness:
  "(18::int) \<le> 100 \<and> (100::int) \<le> 100 \<and> (0::int) \<le> 0 \<and> (0::int) \<le> 3 \<and>
   (0::int) \<le> 2 \<and> (2::int) \<le> 2 \<and>
   90 \<le> estimate_thalach 100 0 2 \<and> estimate_thalach 100 0 2 \<le> 200 \<and>
   estimate_thalach 100 0 2 = 90"
  using estimate_thalach_range [of 100 0 2]
  by (simp add: estimate_thalach_def)

subsection \<open>Risk label\<close>

text \<open>
  C5. The label is the high-risk one exactly when the probability of the positive class
  is strictly above one half; at one half exactly the label is the low-risk one. The
  same holds for the label of the prediction the script displays.
\<close>

theorem pred_label_threshold:
  "(pred_label p = High_Risk \<longleftrightarrow> 1 / 2 < p) \<and>
   pred_label (1 / 2) = Low_Risk \<and>
   (p_label (predict m X) = High_Risk \<longleftrightarrow> 1 / 2 < m X)"
  by (simp add: pred_label_def predict_def Let_def)

subsection \<open>Loading the model\<close>

text \<open>
  C8. When model.pkl is missing or does not unpickle, the run ends with the error of
  line 8 or 9 and yields no prediction, for every input and whether or not the button
  was pressed: nothing catches the error and nothing tries again.
\<close>

theorem missing_model_aborts:
  assumes "f = Missing \<or> f = Malformed"
  shows "(\<exists>e. app_run f a opt submitted = Inl e) \<and>
         (\<forall>r. app_run f a opt submitted \<noteq> Inr r)"
  using assms by (auto simp: app_run_def load_model_def)

theorem missing_model_aborts_witness:
  "(Missing = Missing \<or> Missing = Malformed) \<and>
   (\<exists>e. app_run Missing example_answers no_overrides True = Inl e) \<and>
   (\<forall>r. app_run Missing example_answers no_overrides True \<noteq> Inr r) \<and>
   app_run Missing example_answers no_overrides True = Inl FileNotFoundError \<and>
   app_run Malformed example_answers no_overrides True = Inl UnpickleFailure"
  using missing_model_aborts [of Missing example_answers no_overrides True]
  by (simp add: app_run_def load_model_def)

subsection \<open>Chest pain and resting ECG\<close>

text \<open>
  C9. The chest-pain field is the rule-based derivation from the stress, exercise and
  smoking ranks for every content of the optional inputs; two runs that differ only in
  the optional inputs have the same chest-pain field.
\<close>

theorem chest_pain_no_override:
  "x_cp (derive_features a opt) =
     derive_cp (stress_score (stress a)) (exercise_score (exercise a))
       (smoke_score (smoking a)) \<and>
   x_cp (derive_features a opt) = x_cp (derive_features a opt')"
  by (simp add: derive_features_def Let_def)

text \<open>
  C10. The resting-ECG derivation is the constant 0, and when the resting-ECG input is
  "Unknown" the resting-ECG field is 0, for every age and all answers.
\<close>

theorem restecg_unknown_zero:
  assumes "restecg_opt opt = ECG_Unknown"
  shows "derive_restecg = 0 \<and> x_restecg (derive_features a opt) = 0"
  using assms by (simp add: derive_features_def derive_restecg_def Let_def)

theorem restecg_unknown_zero_witness:
  "restecg_opt no_overrides = ECG_Unknown \<and> derive_restecg = 0 \<and>
   x_restecg (derive_features example_answers no_overrides) = 0"
  using restecg_unknown_zero [of no_overrides example_answers]
  by (simp add: no_overrides_def)

end
